theory Spec2Isabelle
  imports Main
begin

section \<open>JavaScript values\<close>

text \<open>
  The handler of \<^verbatim>\<open>src/handlers.ts\<close> is TypeScript over untyped values: query
  parameters, thrown values and JSON bodies. They are modelled by one datatype of
  JavaScript values. Numbers are the integer-valued ones; strings are lists of
  characters (no operation the handler applies depends on the width of a character);
  an object is the list of its own properties, the first binding of a name being the
  property.
\<close>

datatype jsval =
    JUndefined
  | JNull
  | JBool bool
  | JNum int
  | JStr string
  | JArr "jsval list"
  | JObj "(string \<times> jsval) list"

text \<open>
  What a \<^verbatim>\<open>throw\<close> or a rejected promise carries: a \<^verbatim>\<open>TypeError\<close> raised by the
  language itself (a member of \<^verbatim>\<open>undefined\<close>, a value that is not iterable or not
  callable), or the value an injected dependency threw or rejected with.
\<close>

datatype thrown = TypeError | Rejection jsval

text \<open>\<^verbatim>\<open>ToBoolean\<close>, as \<^verbatim>\<open>if (x)\<close>, \<^verbatim>\<open>!x\<close> and \<^verbatim>\<open>x && y\<close> apply it.\<close>

fun truthy :: "jsval \<Rightarrow> bool" where
  "truthy JUndefined = False"
| "truthy JNull = False"
| "truthy (JBool b) = b"
| "truthy (JNum n) = (n \<noteq> 0)"
| "truthy (JStr s) = (s \<noteq> [])"
| "truthy (JArr xs) = True"
| "truthy (JObj ps) = True"

text \<open>The operator \<^verbatim>\<open>!x\<close>.\<close>

definition js_not :: "jsval \<Rightarrow> bool" where
  "js_not v = (\<not> truthy v)"

fun nullish :: "jsval \<Rightarrow> bool" where
  "nullish JUndefined = True"
| "nullish JNull = True"
| "nullish v = False"

text \<open>\<^verbatim>\<open>typeof e == 'string'\<close>.\<close>

fun is_string :: "jsval \<Rightarrow> bool" where
  "is_string (JStr s) = True"
| "is_string v = False"

text \<open>
  The member \<^verbatim>\<open>e.k\<close> of a value that is neither \<^verbatim>\<open>null\<close> nor \<^verbatim>\<open>undefined\<close>, for the
  names the handler reads (\<^verbatim>\<open>message\<close>, \<^verbatim>\<open>error\<close>): an object's property, and
  \<^verbatim>\<open>undefined\<close> on a missing property and on every primitive and array.
\<close>

fun property :: "jsval \<Rightarrow> string \<Rightarrow> jsval" where
  "property (JObj ps) k = (case map_of ps k of Some v \<Rightarrow> v | None \<Rightarrow> JUndefined)"
| "property v k = JUndefined"

text \<open>Member access: \<^verbatim>\<open>undefined.k\<close> and \<^verbatim>\<open>null.k\<close> throw a \<^verbatim>\<open>TypeError\<close>.\<close>

definition get_property :: "jsval \<Rightarrow> string \<Rightarrow> thrown + jsval" where
  "get_property e k = (if nullish e then Inl TypeError else Inr (property e k))"

text \<open>
  The value a client reads back from \<^verbatim>\<open>JSON.stringify(v)\<close>: a property whose value is
  \<^verbatim>\<open>undefined\<close> is left out of its object, and \<^verbatim>\<open>undefined\<close> in an array becomes
  \<^verbatim>\<open>null\<close>.
\<close>

fun toJSON :: "jsval \<Rightarrow> jsval" where
  "toJSON (JObj ps) =
     JObj (map (\<lambda>(k, v). (k, toJSON v)) (filter (\<lambda>(k, v). v \<noteq> JUndefined) ps))"
| "toJSON (JArr xs) = JArr (map (\<lambda>v. if v = JUndefined then JNull else toJSON v) xs)"
| "toJSON v = v"

section \<open>Strings\<close>

text \<open>
  \<^verbatim>\<open>find_sep sep s\<close> is the first occurrence of \<^verbatim>\<open>sep\<close> in \<^verbatim>\<open>s\<close>, scanning from the
  left: what stands before it and what follows it.
\<close>

fun find_sep :: "string \<Rightarrow> string \<Rightarrow> (string \<times> string) option" where
  "find_sep sep [] = (if sep = [] then Some ([], []) else None)"
| "find_sep sep (c # cs) =
     (if take (length sep) (c # cs) = sep then Some ([], drop (length sep) (c # cs))
      else map_option (\<lambda>(a, b). (c # a, b)) (find_sep sep cs))"

lemma find_sep_shorter:
  "find_sep sep s = Some (a, b) \<Longrightarrow> sep \<noteq> [] \<Longrightarrow> length b < length s"
  by (induction s arbitrary: a) (auto split: if_splits)

text \<open>
  \<^verbatim>\<open>s.split(sep)\<close> with a string separator: the pieces between the occurrences of
  \<^verbatim>\<open>sep\<close> found one after the other, each search starting where the previous
  occurrence ended; the empty separator splits into single characters.
\<close>

function split_str :: "string \<Rightarrow> string \<Rightarrow> string list" where
  "split_str sep s =
     (if sep = [] then map (\<lambda>c. [c]) s
      else case find_sep sep s of
             None \<Rightarrow> [s]
           | Some (a, b) \<Rightarrow> a # split_str sep b)"
  by pat_completeness auto
termination
  by (relation "measure (\<lambda>(sep, s). length s)") (auto dest: find_sep_shorter)

text \<open>
  The number of positions of \<^verbatim>\<open>s\<close> at which \<^verbatim>\<open>sep\<close> occurs, overlapping occurrences
  counted each.
\<close>

fun occurrences :: "string \<Rightarrow> string \<Rightarrow> nat" where
  "occurrences sep [] = (if sep = [] then 1 else 0)"
| "occurrences sep (c # cs) =
     (if take (length sep) (c # cs) = sep then 1 else 0) + occurrences sep cs"

text \<open>\<^verbatim>\<open>s.lastIndexOf(c)\<close> for a one-character search string: \<^verbatim>\<open>-1\<close> when absent.\<close>

definition lastIndexOf :: "string \<Rightarrow> char \<Rightarrow> int" where
  "lastIndexOf s c =
     (if c \<in> set s then int (length s) - 1 - int (length (takeWhile (\<lambda>x. x \<noteq> c) (rev s)))
      else - 1)"

text \<open>
  \<^verbatim>\<open>s.substring(a, b)\<close>: both indices are clamped to the string, and swapped when the
  first is the larger.
\<close>

definition substring :: "string \<Rightarrow> int \<Rightarrow> int \<Rightarrow> string" where
  "substring s a b =
     (let n = int (length s);
          a' = max 0 (min a n);
          b' = max 0 (min b n);
          lo = min a' b';
          hi = max a' b'
      in take (nat (hi - lo)) (drop (nat lo) s))"

text \<open>\<^verbatim>\<open>s.endsWith(suffix)\<close>.\<close>

definition endsWith :: "string \<Rightarrow> string \<Rightarrow> bool" where
  "endsWith s suffix =
     (length suffix \<le> length s \<and> drop (length s - length suffix) s = suffix)"

text \<open>\<^verbatim>\<open>d.replace(/^\//, '')\<close>: one slash at the start of the string is removed.\<close>

definition replace_leading_slash :: "string \<Rightarrow> string" where
  "replace_leading_slash d =
     (case d of [] \<Rightarrow> [] | c # cs \<Rightarrow> if c = CHR ''/'' then cs else c # cs)"

text \<open>The final segment of a path: what follows its last slash.\<close>

definition last_segment :: "string \<Rightarrow> string" where
  "last_segment p = rev (takeWhile (\<lambda>x. x \<noteq> CHR ''/'') (rev p))"

text \<open>The two-character string \<^verbatim>\<open>""\<close> that \<^verbatim>\<open>listMedia\<close> compares the directory with.\<close>

definition empty_quotes :: string where
  "empty_quotes = [CHR 0x22, CHR 0x22]"

section \<open>The platform: URLs, the storage client, requests and responses\<close>

text \<open>
  \<^verbatim>\<open>new URL(s)\<close> belongs to the platform. The model takes the constructor as a
  parameter: it throws, or yields an object of which the handler reads \<^verbatim>\<open>href\<close> and
  \<^verbatim>\<open>pathname\<close>.
\<close>

record url =
  href :: string
  pathname :: string

type_synonym urlctor = "string \<Rightarrow> jsval + url"

text \<open>
  A constructor for the examples: on \<^verbatim>\<open>https://cdn.example.com/\<close> followed by a path of
  letters, digits, dots and slashes with no dot segment, the platform's \<^verbatim>\<open>href\<close> is the
  input and its \<^verbatim>\<open>pathname\<close> the input from the slash after the host on. The examples
  apply it to such inputs only.
\<close>

definition example_URL :: urlctor where
  "example_URL s =
     (if take 24 s = ''https://cdn.example.com/''
      then Inr \<lparr>href = s, pathname = drop 23 s\<rparr>
      else Inl (JObj [(''code'', JStr ''ERR_INVALID_URL'')]))"

text \<open>
  The object descriptors of a listing, and the object a listing resolves with: the
  members \<^verbatim>\<open>Contents\<close> and \<^verbatim>\<open>NextMarker\<close> of \<^verbatim>\<open>ListObjectsCommandOutput\<close>, and whatever
  members of other names the object has. The cursor of a listing is \<^verbatim>\<open>NextMarker\<close>; the
  output of the S3 client has no member \<^verbatim>\<open>next_cursor\<close>.
\<close>

record s3object =
  Key :: string

record ListObjectsOutput =
  Contents :: "s3object list option"
  NextMarker :: "string option"
  other_members :: "(string \<times> jsval) list"

record ListObjectsInput =
  lo_Bucket :: string
  lo_Prefix :: jsval
  lo_MaxKeys :: jsval
  lo_Marker :: jsval

record UploadParams =
  up_Bucket :: string
  up_ACL :: string
  up_Key :: string
  up_Body :: string

record DeleteObjectInput =
  del_Bucket :: string
  del_Key :: jsval

datatype command =
    ListObjectsCommand ListObjectsInput
  | Upload UploadParams
  | DeleteObjectCommand DeleteObjectInput

text \<open>
  The storage client, as the handler uses it: each call resolves with the backend's
  output or rejects with a value. \<^verbatim>\<open>up_Body\<close> is the path of the staged file the
  upload streams.
\<close>

record client =
  send_list :: "ListObjectsInput \<Rightarrow> jsval + ListObjectsOutput"
  upload_done :: "UploadParams \<Rightarrow> jsval + jsval"
  send_delete :: "DeleteObjectInput \<Rightarrow> jsval + jsval"

text \<open>
  A request: its method, the query parameters the handler reads (\<^verbatim>\<open>undefined\<close> when
  absent), and what the multipart parser makes of its body: a rejection, or the
  \<^verbatim>\<open>directory\<close> field of \<^verbatim>\<open>req.body\<close> and \<^verbatim>\<open>req.file\<close>.
\<close>

record query =
  q_directory :: jsval
  q_limit :: jsval
  q_offset :: jsval
  q_media :: jsval

record upload_file =
  originalname :: string
  path :: string

record form =
  body_directory :: jsval
  req_file :: "upload_file option"

record request =
  req_method :: string
  req_query :: query
  multipart :: "jsval + form"

text \<open>
  A response: its status code (200 until set) and the one body written, with the call
  that wrote it. \<^verbatim>\<open>res.json(v)\<close> writes the JSON of \<^verbatim>\<open>v\<close>; \<^verbatim>\<open>res.send\<close> and
  \<^verbatim>\<open>res.end\<close> are recorded with their argument.
\<close>

datatype payload = Json jsval | Send jsval | EndWith jsval

record response =
  statusCode :: nat
  sent :: "payload option"

definition new_response :: response where
  "new_response = \<lparr>statusCode = 200, sent = None\<rparr>"

definition res_status :: "nat \<Rightarrow> response \<Rightarrow> response" where
  "res_status code r = r\<lparr>statusCode := code\<rparr>"

definition res_json :: "jsval \<Rightarrow> response \<Rightarrow> response" where
  "res_json v r = r\<lparr>sent := Some (Json (toJSON v))\<rparr>"

definition res_send :: "jsval \<Rightarrow> response \<Rightarrow> response" where
  "res_send v r = r\<lparr>sent := Some (Send v)\<rparr>"

definition res_end :: "jsval \<Rightarrow> response \<Rightarrow> response" where
  "res_end v r = r\<lparr>sent := Some (EndWith v)\<rparr>"

text \<open>
  A response is answered once \<^verbatim>\<open>json\<close>, \<^verbatim>\<open>send\<close> or \<^verbatim>\<open>end\<close> has been called on it;
  \<^verbatim>\<open>res.status\<close> alone sets a field and sends nothing.
\<close>

definition responded :: "response \<Rightarrow> bool" where
  "responded r = (sent r \<noteq> None)"

record S3Config =
  endpoint :: string
  cdn_base_url :: string
  bucket :: string
  access_key :: string
  access_secret :: string
  region :: string
  authorized :: "request \<Rightarrow> response \<Rightarrow> jsval + bool"

text \<open>
  What a run of the handler leaves: the response, the calls issued to the storage
  backend in order, and the exception it ended with, if any.
\<close>

record outcome =
  res :: response
  calls :: "command list"
  uncaught :: "thrown option"

text \<open>
  The repository holds two snapshots of the handler, \<^verbatim>\<open>src/handlers.ts\<close> (its lines 1
  to 227) and \<^verbatim>\<open>unnamed/part_000\<close>, line for line the same but in two places of the
  listing: the member read for the next cursor (line 154), and the preview of a video
  (line 207).
\<close>

datatype snapshot = Handlers_ts | Part_000

section \<open>The handler\<close>

text \<open>\<^verbatim>\<open>findErrorMessage\<close>, lines 169 to 174.\<close>

definition findErrorMessage :: "jsval \<Rightarrow> thrown + jsval" where
  "findErrorMessage e =
     (if is_string e then Inr e
      else case get_property e ''message'' of
        Inl t \<Rightarrow> Inl t
      | Inr message \<Rightarrow>
          if truthy message then Inr message
          else (case get_property e ''error'' of
            Inl t \<Rightarrow> Inl t
          | Inr err \<Rightarrow>
              if truthy err then
                (case get_property err ''message'' of
                   Inl t \<Rightarrow> Inl t
                 | Inr inner \<Rightarrow>
                     if truthy inner then Inr inner else Inr (JStr ''an error occurred''))
              else Inr (JStr ''an error occurred'')))"

text \<open>\<^verbatim>\<open>transformS3Image\<close>, lines 216 to 227.\<close>

definition transformS3Image :: "string \<Rightarrow> string \<Rightarrow> string" where
  "transformS3Image url transformations =
     (let parts = split_str ''/image/upload/'' url in
      if length parts = 2
      then parts ! 0 @ ''/image/upload/'' @ transformations @ ''/'' @ parts ! 1
      else url)"

text \<open>The inline image the later snapshot shows for a video.\<close>

definition video_placeholder :: string where
  "video_placeholder =
     ''data:image/png;base64,iVBORw0KGgoAAAANSUhEUgAAASsAAACoCAMAAACPKThEAAAARVBMVE'' @
     ''WqqqrMzMz///+5ubmnp6ekpKTn5+f39/erq6vt7e3JycnY2NixsbHp6en7+/vBwcHh4eHS0tK1tb'' @
     ''Xx8fHc3Ny9vb3ExMRKCGhtAAAEdklEQVR4nO3d63KbMBSFUTgIJEDcL+//qEV13TppBDvGntMO+5'' @
     ''vpn9ZuyRpBZIHSpK5ShpVkJjEMKskShkYrPFrh0QqPVni0wqMVHq3waIVHKzxa4dEKj1Z4tMKjFR'' @
     ''6t8GiFRys8WuHRCo9WeLTCoxUerfBohUcrPFrh0QqPVni0wqMVHq3waIVHKzxa4dEKj1Z4tMKjFR'' @
     ''6t8GiFRys8WuHRCo9WeLTCoxUerfBohUcrPFrh0QqPVni0wqMVHq3waIWnbOW2X7efqpGb/LHb75'' @
     ''j89w/duL9aMUWrm8G4rNVQz3PfF01R3muKouj7fp7rehjSdV2y0f/k0ztcNSuXGLf2pZWP2XutfN'' @
     ''XUp6OilpKVSYZAU/b1UHVh0Gx4+ae2Qee892OWdd1apcNcBMJyUdPSsTKjlbLyJr9dj5K9L//PDw'' @
     ''rKc7/MIrUWloqVyVqp7hfs770z940aloqVs/L8mWQK6XSwNKxMvY2qZ9/sEt9O17HybXnmi83rE6'' @
     ''PyTApWZjkxrML7R6UrloZVKuf+VWeby1jNMp77C0r7okP5XhpWhT33wW7D9i86lm+lYTVFv4856N'' @
     ''wyw8mB+WQKVs4WeeSPzOABLVNJ99IjAlOw8jLHQEwjw/F0fvtGmmpc3FWshqhVITJ1R1om05k0KF'' @
     ''iN8VERrET6oxNxlP4aVtuoiE5Fb1bSpvtDy7fFRawWWQ+sthMxi13+Q65VmYwqWHXxdYLfViLzzq'' @
     ''LWNnF/z7Htp2C1QlbSVnnsZoSxKisNClZVfJng0UqkjC2u0yr5bCVSfz2wjD21qPNs/7aVFF+/7D'' @
     ''JWKW41RF5Gq89WzRiZZhmdBSwFqwGzatfoFOs646rC5lc7U3daJQ9W5bg/b4+u6rwzhc/O6+FnnD'' @
     ''AN3Xsoxl3m82B3uM7gDkaNb/trjCuT7axfNdvH5uXQYWe18J2prPVFV+rCuujugyC3lG4QqlhFV+'' @
     ''qw9fYku8wasrNlfOaEPOe4XfHWVx4QmsbzDPF7XljhxvVFxpVpzt5LrQU6VV+dzj36c7eN87M3rp'' @
     ''9Mw6qS5dxfME0vOpTvpXG92iZYp6aSStN2FSt3bgl4b+L/1pSegTzzYJ6ZWpXHZHSsfGuxJ2K+fH'' @
     ''evNKyUntleZRqf2y9iXLFN+3U25ujsBcgrkTozeZ6E/zL56NW3DU5hU0DuB6vzuTmktcckK0VsU6'' @
     ''fr8nOHiftrh8mH3SbOZ8uaDn14U3Tx6+1p7fMyJqvLjzuUWjtNv7Z43WvKcrIPG5xsvwLLEO9Kb0'' @
     ''9cOKWSsavSoQ5b4opic5ls+2GLV2uDX1PMYYtT5sK2FMU9hNr7Uh82Ju2dhOap3TsvTtvqf4pWeL'' @
     ''TCoxUerfBohUcrPFrh0QqPVni0wqMVHq3waIVHKzxa4dEKj1Z4tMKjFR6t8GiFRys8WuHRCo9WeL'' @
     ''TCoxUerfBohUcrPFrh0QqPVni0wqMVHq3waIVHKzxa4dEKj1Z4tMKjFR6t8GiFRys8WuHRCo9WeL'' @
     ''TCoxUerfBohUcrPFrh0QqPVni0gvsBO1Qk0wQ2QcwAAAAASUVORK5CYII=''"

text \<open>
  \<^verbatim>\<open>getS3ToTinaFunc(config)\<close>, lines 194 to 214: the projection of an object
  descriptor. It throws what the URL constructor throws.
\<close>

definition getS3ToTinaFunc ::
  "snapshot \<Rightarrow> urlctor \<Rightarrow> S3Config \<Rightarrow> s3object \<Rightarrow> jsval + jsval" where
  "getS3ToTinaFunc snap URL config file =
     (let bucketUrl = ''https://'' @ cdn_base_url config @ ''/'';
          filename = Key file
      in case URL (bucketUrl @ filename) of
           Inl e \<Rightarrow> Inl e
         | Inr url \<Rightarrow>
             let directory =
                   substring (pathname url) 0 (lastIndexOf (pathname url) CHR ''/'')
             in Inr (JObj
                  [(''id'', JStr (Key file)),
                   (''filename'', JStr filename),
                   (''directory'', JStr directory),
                   (''src'', JStr (href url)),
                   (''previewSrc'',
                      JStr (case snap of
                              Handlers_ts \<Rightarrow>
                                transformS3Image (href url) ''w_125,h_125,c_fill,q_auto''
                            | Part_000 \<Rightarrow>
                                if endsWith filename ''.mp4'' then video_placeholder
                                else transformS3Image (href url)
                                       ''w_125,h_125,c_fill,q_auto'')),
                   (''type'', JStr ''file'')]))"

text \<open>\<^verbatim>\<open>xs.map(f)\<close> with an \<^verbatim>\<open>f\<close> that can throw: the first exception ends the map.\<close>

fun map_throwing :: "('a \<Rightarrow> 'e + 'b) \<Rightarrow> 'a list \<Rightarrow> 'e + 'b list" where
  "map_throwing f [] = Inr []"
| "map_throwing f (x # xs) =
     (case f x of
        Inl e \<Rightarrow> Inl e
      | Inr y \<Rightarrow> (case map_throwing f xs of Inl e \<Rightarrow> Inl e | Inr ys \<Rightarrow> Inr (y # ys)))"

text \<open>
  The \<^verbatim>\<open>catch\<close> block of \<^verbatim>\<open>listMedia\<close>, lines 156 to 160. An exception of
  \<^verbatim>\<open>findErrorMessage\<close> leaves the block after the status is set.
\<close>

definition listMedia_catch :: "jsval \<Rightarrow> command list \<Rightarrow> response \<Rightarrow> outcome" where
  "listMedia_catch e cs r =
     (let r1 = res_status 500 r in
      case findErrorMessage e of
        Inl t \<Rightarrow> \<lparr>res = r1, calls = cs, uncaught = Some t\<rparr>
      | Inr message \<Rightarrow>
          \<lparr>res = res_json (JObj [(''e'', message)]) r1, calls = cs, uncaught = None\<rparr>)"

text \<open>
  The member of the listing's output returned as \<^verbatim>\<open>offset\<close> (line 154):
  \<^verbatim>\<open>response.next_cursor\<close> in \<^verbatim>\<open>src/handlers.ts\<close>, and \<^verbatim>\<open>response.NextMarker\<close> in the
  other snapshot.
\<close>

definition next_offset :: "snapshot \<Rightarrow> ListObjectsOutput \<Rightarrow> jsval" where
  "next_offset snap response =
     (case snap of
        Handlers_ts \<Rightarrow> property (JObj (other_members response)) ''next_cursor''
      | Part_000 \<Rightarrow> (case NextMarker response of None \<Rightarrow> JUndefined | Some m \<Rightarrow> JStr m))"

text \<open>\<^verbatim>\<open>listMedia\<close>, lines 123 to 161.\<close>

definition listMedia ::
  "snapshot \<Rightarrow> urlctor \<Rightarrow> client \<Rightarrow> request \<Rightarrow> response \<Rightarrow> S3Config \<Rightarrow> outcome" where
  "listMedia snap URL cl req r config =
     (let directory = q_directory (req_query req);
          limit = (if q_limit (req_query req) = JUndefined then JNum 500
                   else q_limit (req_query req));
          offset = q_offset (req_query req);
          useRootDirectory =
            (js_not directory \<or> directory = JStr ''/'' \<or> directory = JStr empty_quotes);
          command =
            \<lparr>lo_Bucket = bucket config,
             lo_Prefix = (if useRootDirectory then JStr [] else directory),
             lo_MaxKeys = limit,
             lo_Marker = offset\<rparr>
      in case send_list cl command of
           Inl e \<Rightarrow> listMedia_catch e [ListObjectsCommand command] r
         | Inr response \<Rightarrow>
             (case (case Contents response of
                      Some cs \<Rightarrow> map_throwing (getS3ToTinaFunc snap URL config) cs
                    | None \<Rightarrow> Inr []) of
                Inl e \<Rightarrow> listMedia_catch e [ListObjectsCommand command] r
              | Inr files \<Rightarrow>
                  (let folders = [] in
                   \<lparr>res = res_json
                            (JObj [(''items'', JArr (folders @ files)),
                                   (''offset'', next_offset snap response)]) r,
                    calls = [ListObjectsCommand command],
                    uncaught = None\<rparr>)))"

text \<open>
  The parameters of an upload, lines 97 to 104. The key is
  \<^verbatim>\<open>directory.replace(/^\//, '') + req.file.originalname\<close>: a \<^verbatim>\<open>directory\<close> that is not a
  string has no \<^verbatim>\<open>replace\<close>, and a request with no file has no \<^verbatim>\<open>req.file\<close>.
\<close>

definition upload_params :: "S3Config \<Rightarrow> jsval \<Rightarrow> upload_file option \<Rightarrow> thrown + UploadParams" where
  "upload_params config directory file =
     (case directory of
        JStr d \<Rightarrow>
          (case file of
             None \<Rightarrow> Inl TypeError
           | Some f \<Rightarrow>
               Inr \<lparr>up_Bucket = bucket config,
                    up_ACL = ''public-read'',
                    up_Key = replace_leading_slash d @ originalname f,
                    up_Body = path f\<rparr>)
      | _ \<Rightarrow> Inl TypeError)"

text \<open>\<^verbatim>\<open>uploadMedia\<close>, lines 74 to 121.\<close>

definition uploadMedia :: "client \<Rightarrow> request \<Rightarrow> response \<Rightarrow> S3Config \<Rightarrow> outcome" where
  "uploadMedia cl req r config =
     (case multipart req of
        Inl e \<Rightarrow> \<lparr>res = r, calls = [], uncaught = Some (Rejection e)\<rparr>
      | Inr fm \<Rightarrow>
          (let directory = body_directory fm in
           case upload_params config directory (req_file fm) of
             Inl t \<Rightarrow> \<lparr>res = res_send (JNum 500) r, calls = [], uncaught = None\<rparr>
           | Inr params \<Rightarrow>
               (case upload_done cl params of
                  Inr upload_result \<Rightarrow>
                    \<lparr>res = res_json upload_result r, calls = [Upload params],
                     uncaught = None\<rparr>
                | Inl e \<Rightarrow>
                    \<lparr>res = res_send (JNum 500) r, calls = [Upload params],
                     uncaught = None\<rparr>)))"

text \<open>
  \<^verbatim>\<open>const [, public_id] = media\<close>, line 178: the second element of an array, the second
  character of a string; any other value is not iterable.
\<close>

fun second_element :: "jsval \<Rightarrow> thrown + jsval" where
  "second_element (JArr xs) = Inr (case xs of a # x # rest \<Rightarrow> x | _ \<Rightarrow> JUndefined)"
| "second_element (JStr s) = Inr (case s of a # c # rest \<Rightarrow> JStr [c] | _ \<Rightarrow> JUndefined)"
| "second_element v = Inl TypeError"

text \<open>
  \<^verbatim>\<open>deleteAsset\<close>, lines 176 to 193. The call is not awaited: the outcome is what the
  callbacks of its promise leave.
\<close>

definition deleteAsset :: "client \<Rightarrow> request \<Rightarrow> response \<Rightarrow> S3Config \<Rightarrow> outcome" where
  "deleteAsset cl req r config =
     (case second_element (q_media (req_query req)) of
        Inl t \<Rightarrow> \<lparr>res = r, calls = [], uncaught = Some t\<rparr>
      | Inr public_id \<Rightarrow>
          (let command = \<lparr>del_Bucket = bucket config, del_Key = public_id\<rparr> in
           case send_delete cl command of
             Inr data \<Rightarrow>
               \<lparr>res = res_json (JObj [(''undefined'', JUndefined), (''public_id'', public_id)]) r,
                calls = [DeleteObjectCommand command],
                uncaught = None\<rparr>
           | Inl e \<Rightarrow>
               \<lparr>res = res_status 500 r,
                calls = [DeleteObjectCommand command],
                uncaught = None\<rparr>))"

text \<open>
  The handler \<^verbatim>\<open>createMediaHandler(config)\<close> returns, lines 54 to 71. The client is the
  one \<^verbatim>\<open>createMediaHandler\<close> built.
\<close>

definition createMediaHandler ::
  "snapshot \<Rightarrow> urlctor \<Rightarrow> client \<Rightarrow> S3Config \<Rightarrow> request \<Rightarrow> response \<Rightarrow> outcome" where
  "createMediaHandler snap URL cl config req r =
     (case authorized config req r of
        Inl e \<Rightarrow> \<lparr>res = r, calls = [], uncaught = Some (Rejection e)\<rparr>
      | Inr isAuthorized \<Rightarrow>
          if \<not> isAuthorized then
            \<lparr>res = res_json (JObj [(''message'', JStr ''sorry this user is not authorized'')])
                     (res_status 401 r),
             calls = [],
             uncaught = None\<rparr>
          else if req_method req = ''GET'' then listMedia snap URL cl req r config
          else if req_method req = ''POST'' then uploadMedia cl req r config
          else if req_method req = ''DELETE'' then deleteAsset cl req r config
          else \<lparr>res = res_end (JNum 404) r, calls = [], uncaught = None\<rparr>)"

section \<open>Example inputs\<close>

text \<open>A configuration, a client whose three calls each have one fixed result, and requests.\<close>

definition example_config :: S3Config where
  "example_config =
     \<lparr>endpoint = ''https://s3.example.com'', cdn_base_url = ''cdn.example.com'',
      bucket = ''media'', access_key = ''key'', access_secret = ''secret'',
      region = ''eu-central-1'', authorized = (\<lambda>req r. Inr True)\<rparr>"

definition constant_client ::
  "jsval + ListObjectsOutput \<Rightarrow> jsval + jsval \<Rightarrow> jsval + jsval \<Rightarrow> client" where
  "constant_client listed uploaded deleted =
     \<lparr>send_list = (\<lambda>c. listed), upload_done = (\<lambda>c. uploaded), send_delete = (\<lambda>c. deleted)\<rparr>"

definition no_query :: query where
  "no_query =
     \<lparr>q_directory = JUndefined, q_limit = JUndefined, q_offset = JUndefined,
      q_media = JUndefined\<rparr>"

definition example_request :: "string \<Rightarrow> query \<Rightarrow> request" where
  "example_request m q = \<lparr>req_method = m, req_query = q, multipart = Inl JUndefined\<rparr>"

section \<open>Dispatch and the calls of each operation\<close>

lemma handler_GET:
  "authorized config req r = Inr True \<Longrightarrow> req_method req = ''GET'' \<Longrightarrow>
   createMediaHandler snap URL cl config req r = listMedia snap URL cl req r config"
  by (simp add: createMediaHandler_def)

lemma handler_POST:
  "authorized config req r = Inr True \<Longrightarrow> req_method req = ''POST'' \<Longrightarrow>
   createMediaHandler snap URL cl config req r = uploadMedia cl req r config"
  by (simp add: createMediaHandler_def)

lemma handler_DELETE:
  "authorized config req r = Inr True \<Longrightarrow> req_method req = ''DELETE'' \<Longrightarrow>
   createMediaHandler snap URL cl config req r = deleteAsset cl req r config"
  by (simp add: createMediaHandler_def)

lemma listMedia_catch_calls: "calls (listMedia_catch e cs r) = cs"
  by (simp add: listMedia_catch_def Let_def split: sum.splits)

text \<open>Every run of \<^verbatim>\<open>listMedia\<close> issues one call, the listing built from the query.\<close>

lemma listMedia_calls:
  "calls (listMedia snap URL cl req r config) =
     [ListObjectsCommand
        \<lparr>lo_Bucket = bucket config,
         lo_Prefix =
           (if js_not (q_directory (req_query req)) \<or> q_directory (req_query req) = JStr ''/''
               \<or> q_directory (req_query req) = JStr empty_quotes
            then JStr [] else q_directory (req_query req)),
         lo_MaxKeys =
           (if q_limit (req_query req) = JUndefined then JNum 500 else q_limit (req_query req)),
         lo_Marker = q_offset (req_query req)\<rparr>]"
  by (simp add: listMedia_def Let_def listMedia_catch_calls split: sum.splits option.splits)

section \<open>The prefix of a listing\<close>

text \<open>
  C1. A listing is a \<^verbatim>\<open>GET\<close> request that passes the authorization. When its
  \<^verbatim>\<open>directory\<close> parameter is \<^verbatim>\<open>undefined\<close>, the empty string, \<^verbatim>\<open>/\<close> or the
  two-character string \<^verbatim>\<open>""\<close>, the one call the handler issues is a listing with the
  empty prefix; for every other non-empty \<^verbatim>\<open>directory\<close> string the prefix of that listing
  is the string unchanged. Both snapshots.
\<close>

theorem list_prefix:
  assumes "authorized config req r = Inr True" and "req_method req = ''GET''"
  shows "(q_directory (req_query req) \<in> {JUndefined, JStr [], JStr ''/'', JStr empty_quotes} \<longrightarrow>
           (\<exists>inp. calls (createMediaHandler snap URL cl config req r) = [ListObjectsCommand inp]
                  \<and> lo_Prefix inp = JStr [])) \<and>
         (\<forall>d. q_directory (req_query req) = JStr d \<and> d \<noteq> [] \<and> d \<noteq> ''/'' \<and> d \<noteq> empty_quotes \<longrightarrow>
           (\<exists>inp. calls (createMediaHandler snap URL cl config req r) = [ListObjectsCommand inp]
                  \<and> lo_Prefix inp = JStr d))"
  using assms
  by (auto simp add: handler_GET listMedia_calls js_not_def)

theorem list_prefix_witness:
  "(\<exists>inp. calls (createMediaHandler Handlers_ts example_URL
             (constant_client (Inr \<lparr>Contents = None, NextMarker = None, other_members = []\<rparr>) (Inr JNull) (Inr JNull))
             example_config
             (example_request ''GET'' (no_query\<lparr>q_directory := JStr ''/''\<rparr>)) new_response)
           = [ListObjectsCommand inp] \<and> lo_Prefix inp = JStr []) \<and>
   (\<exists>inp. calls (createMediaHandler Part_000 example_URL
             (constant_client (Inr \<lparr>Contents = None, NextMarker = None, other_members = []\<rparr>) (Inr JNull) (Inr JNull))
             example_config
             (example_request ''GET'' (no_query\<lparr>q_directory := JStr ''assets/''\<rparr>)) new_response)
           = [ListObjectsCommand inp] \<and> lo_Prefix inp = JStr ''assets/'')"
proof -
  let ?cl = "constant_client (Inr \<lparr>Contents = None, NextMarker = None, other_members = []\<rparr>) (Inr JNull) (Inr JNull)"
  let ?r1 = "example_request ''GET'' (no_query\<lparr>q_directory := JStr ''/''\<rparr>)"
  let ?r2 = "example_request ''GET'' (no_query\<lparr>q_directory := JStr ''assets/''\<rparr>)"
  have a1: "authorized example_config ?r1 new_response = Inr True"
    and a2: "authorized example_config ?r2 new_response = Inr True"
    by (simp_all add: example_config_def)
  have m1: "req_method ?r1 = ''GET''" and m2: "req_method ?r2 = ''GET''"
    by (simp_all add: example_request_def)
  have d1: "q_directory (req_query ?r1) \<in> {JUndefined, JStr [], JStr ''/'', JStr empty_quotes}"
    by (simp add: example_request_def no_query_def)
  have d2: "q_directory (req_query ?r2) = JStr ''assets/'' \<and> ''assets/'' \<noteq> [] \<and> ''assets/'' \<noteq> ''/''
             \<and> ''assets/'' \<noteq> empty_quotes"
    by (simp add: example_request_def no_query_def empty_quotes_def)
  from list_prefix [OF a1 m1, of Handlers_ts example_URL ?cl] d1
    list_prefix [OF a2 m2, of Part_000 example_URL ?cl] d2
  show ?thesis by blast
qed

section \<open>The item projection\<close>

lemma lastIndexOf_last_slash:
  "c \<notin> set f \<Longrightarrow> lastIndexOf (d @ c # f) c = int (length d)"
proof -
  assume "c \<notin> set f"
  then have "takeWhile (\<lambda>x. x \<noteq> c) (rev f @ c # rev d) = rev f"
    by (auto simp add: takeWhile_tail)
  then show ?thesis by (simp add: lastIndexOf_def)
qed

lemma substring_prefix: "substring (d @ rest) 0 (int (length d)) = d"
  by (simp add: substring_def Let_def min_def max_def)

text \<open>
  C2, as the code has it. When the URL constructor accepts the computed URL and the
  path component of the URL is \<^verbatim>\<open>d/f\<close> with no slash in \<^verbatim>\<open>f\<close>, the projection returns an
  item whose \<^verbatim>\<open>directory\<close> is \<^verbatim>\<open>d\<close>, everything before the last slash of the path, and
  whose \<^verbatim>\<open>filename\<close> is the object's key as it is (as is its \<^verbatim>\<open>id\<close>), not the final
  segment of the path. Both snapshots.
\<close>

theorem projection_directory_filename:
  assumes "URL (''https://'' @ cdn_base_url config @ ''/'' @ Key file) = Inr u"
    and "pathname u = d @ ''/'' @ f"
    and "CHR ''/'' \<notin> set f"
  shows "\<exists>m. getS3ToTinaFunc snap URL config file = Inr m
           \<and> property m ''directory'' = JStr d
           \<and> property m ''filename'' = JStr (Key file)
           \<and> property m ''id'' = JStr (Key file)"
  using assms lastIndexOf_last_slash [of "CHR ''/''" f d] substring_prefix [of d "''/'' @ f"]
  by (simp add: getS3ToTinaFunc_def Let_def)

theorem projection_directory_filename_witness:
  "\<exists>m. getS3ToTinaFunc Part_000 example_URL example_config \<lparr>Key = ''assets/cat.png''\<rparr> = Inr m
      \<and> property m ''directory'' = JStr ''/assets''
      \<and> property m ''filename'' = JStr ''assets/cat.png''
      \<and> property m ''id'' = JStr ''assets/cat.png''"
proof -
  have u: "example_URL (''https://'' @ cdn_base_url example_config @ ''/'' @ Key \<lparr>Key = ''assets/cat.png''\<rparr>) =
       Inr \<lparr>href = ''https://cdn.example.com/assets/cat.png'', pathname = ''/assets/cat.png''\<rparr>"
    by (simp add: example_URL_def example_config_def)
  have p: "pathname \<lparr>href = ''https://cdn.example.com/assets/cat.png'', pathname = ''/assets/cat.png''\<rparr>
      = ''/assets'' @ ''/'' @ ''cat.png''"
    by simp
  have n: "CHR ''/'' \<notin> set ''cat.png''" by simp
  from projection_directory_filename
    [of example_URL example_config "\<lparr>Key = ''assets/cat.png''\<rparr>"
       "\<lparr>href = ''https://cdn.example.com/assets/cat.png'', pathname = ''/assets/cat.png''\<rparr>"
       "''/assets''" "''cat.png''" Part_000] u p n
  show ?thesis by simp
qed

text \<open>
  C2 as stated fails on the \<^verbatim>\<open>filename\<close>: for the key \<^verbatim>\<open>assets/cat.png\<close> the path of the
  URL is \<^verbatim>\<open>/assets/cat.png\<close>, whose final segment is \<^verbatim>\<open>cat.png\<close>, and the projection's
  \<^verbatim>\<open>filename\<close> is \<^verbatim>\<open>assets/cat.png\<close>.
\<close>

theorem projection_filename_counterexample:
  "getS3ToTinaFunc Handlers_ts example_URL example_config \<lparr>Key = ''assets/cat.png''\<rparr> =
     Inr (JObj
       [(''id'', JStr ''assets/cat.png''),
        (''filename'', JStr ''assets/cat.png''),
        (''directory'', JStr ''/assets''),
        (''src'', JStr ''https://cdn.example.com/assets/cat.png''),
        (''previewSrc'', JStr ''https://cdn.example.com/assets/cat.png''),
        (''type'', JStr ''file'')])
   \<and> example_URL ''https://cdn.example.com/assets/cat.png'' =
       Inr \<lparr>href = ''https://cdn.example.com/assets/cat.png'', pathname = ''/assets/cat.png''\<rparr>
   \<and> last_segment ''/assets/cat.png'' = ''cat.png''"
  by (simp add: getS3ToTinaFunc_def example_URL_def example_config_def Let_def
      lastIndexOf_def substring_def transformS3Image_def last_segment_def)

section \<open>The URL transform\<close>

lemma occurrences_append_ge: "occurrences sep y \<le> occurrences sep (x @ y)"
  by (induction x) auto

lemma occurrences_sep_append:
  "sep \<noteq> [] \<Longrightarrow> Suc (occurrences sep b) \<le> occurrences sep (sep @ b)"
proof -
  assume "sep \<noteq> []"
  then obtain c cs where sep: "sep = c # cs" by (cases sep) auto
  have "occurrences sep (sep @ b) = 1 + occurrences sep (cs @ b)"
    by (simp add: sep)
  moreover have "occurrences sep b \<le> occurrences sep (cs @ b)"
    by (rule occurrences_append_ge)
  ultimately show ?thesis by simp
qed

lemma occurrences_between:
  "sep \<noteq> [] \<Longrightarrow> Suc (occurrences sep b) \<le> occurrences sep (a @ sep @ b)"
  using occurrences_sep_append [of sep b] occurrences_append_ge [of sep "sep @ b" a]
  by simp

lemma find_sep_None: "sep \<noteq> [] \<Longrightarrow> occurrences sep s = 0 \<Longrightarrow> find_sep sep s = None"
  by (induction s) (auto split: if_splits)

lemma find_sep_unique:
  "sep \<noteq> [] \<Longrightarrow> occurrences sep (a @ sep @ b) = 1 \<Longrightarrow> find_sep sep (a @ sep @ b) = Some (a, b)"
proof (induction a)
  case Nil
  then obtain c cs where sep: "sep = c # cs" by (cases sep) auto
  show ?case by (simp add: sep)
next
  case (Cons x a)
  have ge: "1 \<le> occurrences sep (a @ sep @ b)"
    using occurrences_between [OF Cons.prems(1), of b a] by simp
  from Cons.prems(2) ge
  have no: "take (length sep) (x # a @ sep @ b) \<noteq> sep"
    and one: "occurrences sep (a @ sep @ b) = 1"
    by (auto split: if_splits)
  from Cons.IH [OF Cons.prems(1) one] no show ?case by simp
qed

lemma split_str_once:
  assumes "sep \<noteq> []" and "occurrences sep (a @ sep @ b) = 1"
  shows "split_str sep (a @ sep @ b) = [a, b]"
proof -
  have "occurrences sep b = 0"
    using occurrences_between [OF assms(1), of b a] assms(2) by simp
  then have "find_sep sep b = None" by (rule find_sep_None [OF assms(1)])
  with find_sep_unique [OF assms] assms(1) show ?thesis by simp
qed

lemma split_str_absent:
  "sep \<noteq> [] \<Longrightarrow> occurrences sep s = 0 \<Longrightarrow> split_str sep s = [s]"
  by (simp add: find_sep_None)

lemma find_sep_keeps_rest:
  "sep \<noteq> [] \<Longrightarrow> \<exists>a' y. find_sep sep (a @ sep @ rest) = Some (a', y @ rest)"
proof (induction a)
  case Nil
  then obtain c cs where sep: "sep = c # cs" by (cases sep) auto
  show ?case by (simp add: sep)
next
  case (Cons x a)
  then obtain a' y where "find_sep sep (a @ sep @ rest) = Some (a', y @ rest)" by blast
  moreover have "drop (length sep) (x # a @ sep @ rest) = drop (length sep) (x # a @ sep) @ rest"
    using drop_append [of "length sep" "x # a @ sep" rest] by simp
  ultimately show ?case by (cases "take (length sep) (x # a @ sep @ rest) = sep") auto
qed

lemma split_str_twice:
  assumes "sep \<noteq> []"
  shows "3 \<le> length (split_str sep (a @ sep @ b @ sep @ c))"
proof -
  obtain a' y where f1: "find_sep sep (a @ sep @ (b @ sep @ c)) = Some (a', y @ (b @ sep @ c))"
    using find_sep_keeps_rest [OF assms] by blast
  obtain a'' z where f2: "find_sep sep ((y @ b) @ sep @ c) = Some (a'', z @ c)"
    using find_sep_keeps_rest [OF assms] by blast
  have "split_str sep (a @ sep @ b @ sep @ c) = a' # a'' # split_str sep (z @ c)"
    using f1 f2 assms by simp
  moreover have "1 \<le> length (split_str sep (z @ c))"
    using assms by (cases "find_sep sep (z @ c)") auto
  ultimately show ?thesis by simp
qed

text \<open>
  C3, as the code has it. When the marker \<^verbatim>\<open>/image/upload/\<close> is absent from the URL,
  \<^verbatim>\<open>transformS3Image\<close> returns the URL unchanged. When it occurs exactly once, the URL being
  \<^verbatim>\<open>a\<close>, the marker, \<^verbatim>\<open>b\<close>, the result is \<^verbatim>\<open>a\<close>, the marker, the token, a slash, \<^verbatim>\<open>b\<close>.
  When the URL holds two occurrences one after the other, it is returned unchanged.
\<close>

theorem transformS3Image_marker:
  "(occurrences ''/image/upload/'' u = 0 \<longrightarrow> transformS3Image u t = u) \<and>
   (\<forall>a b. u = a @ ''/image/upload/'' @ b \<and> occurrences ''/image/upload/'' u = 1 \<longrightarrow>
      transformS3Image u t = a @ ''/image/upload/'' @ t @ ''/'' @ b) \<and>
   (\<forall>a b c. u = a @ ''/image/upload/'' @ b @ ''/image/upload/'' @ c \<longrightarrow>
      transformS3Image u t = u)"
proof (intro conjI allI impI)
  assume "occurrences ''/image/upload/'' u = 0"
  then have "split_str ''/image/upload/'' u = [u]"
    by (intro split_str_absent) simp_all
  then show "transformS3Image u t = u"
    by (simp add: transformS3Image_def)
next
  fix a b
  assume h: "u = a @ ''/image/upload/'' @ b \<and> occurrences ''/image/upload/'' u = 1"
  then have u: "u = a @ ''/image/upload/'' @ b"
    and one: "occurrences ''/image/upload/'' (a @ ''/image/upload/'' @ b) = 1"
    by blast+
  have ne: "''/image/upload/'' \<noteq> []" by simp
  have "split_str ''/image/upload/'' u = [a, b]"
    unfolding u by (rule split_str_once [OF ne one])
  then show "transformS3Image u t = a @ ''/image/upload/'' @ t @ ''/'' @ b"
    by (simp add: transformS3Image_def)
next
  fix a b c
  assume u: "u = a @ ''/image/upload/'' @ b @ ''/image/upload/'' @ c"
  have ne: "''/image/upload/'' \<noteq> []" by simp
  have "3 \<le> length (split_str ''/image/upload/'' u)"
    unfolding u by (rule split_str_twice [OF ne])
  then have "length (split_str ''/image/upload/'' u) \<noteq> 2" by simp
  then show "transformS3Image u t = u"
    by (simp add: transformS3Image_def Let_def)
qed

theorem transformS3Image_marker_witness:
  "occurrences ''/image/upload/'' ''https://cdn.example.com/a.png'' = 0
   \<and> transformS3Image ''https://cdn.example.com/a.png'' ''w_125'' = ''https://cdn.example.com/a.png''
   \<and> occurrences ''/image/upload/'' ''https://c.io/image/upload/a.png'' = 1
   \<and> transformS3Image ''https://c.io/image/upload/a.png'' ''w_125'' =
       ''https://c.io/image/upload/w_125/a.png''
   \<and> transformS3Image ''x/image/upload/y/image/upload/z'' ''w_125'' =
       ''x/image/upload/y/image/upload/z''"
proof -
  have o0: "occurrences ''/image/upload/'' ''https://cdn.example.com/a.png'' = 0" by simp
  have o1: "''https://c.io/image/upload/a.png'' = ''https://c.io'' @ ''/image/upload/'' @ ''a.png''
            \<and> occurrences ''/image/upload/'' ''https://c.io/image/upload/a.png'' = 1"
    by simp
  have o2: "''x/image/upload/y/image/upload/z'' =
              ''x'' @ ''/image/upload/'' @ ''y'' @ ''/image/upload/'' @ ''z''"
    by simp
  from transformS3Image_marker [of "''https://cdn.example.com/a.png''" "''w_125''"] o0
  have r0: "transformS3Image ''https://cdn.example.com/a.png'' ''w_125'' = ''https://cdn.example.com/a.png''"
    by blast
  from transformS3Image_marker [of "''https://c.io/image/upload/a.png''" "''w_125''"] o1
  have r1: "transformS3Image ''https://c.io/image/upload/a.png'' ''w_125'' =
              ''https://c.io'' @ ''/image/upload/'' @ ''w_125'' @ ''/'' @ ''a.png''"
    by blast
  from transformS3Image_marker [of "''x/image/upload/y/image/upload/z''" "''w_125''"] o2
  have r2: "transformS3Image ''x/image/upload/y/image/upload/z'' ''w_125'' =
              ''x/image/upload/y/image/upload/z''"
    by blast
  from o0 o1 r0 r1 r2 show ?thesis by simp
qed

text \<open>
  C3 as stated fails where two occurrences of the marker overlap: in
  \<^verbatim>\<open>/image/upload/image/upload/\<close> the marker occurs twice, at positions 0 and 13, sharing a
  slash; the split finds the first only, and the token is spliced in after it.
\<close>

theorem transformS3Image_counterexample:
  "occurrences ''/image/upload/'' ''/image/upload/image/upload/'' = 2
   \<and> transformS3Image ''/image/upload/image/upload/'' ''w_125'' =
       ''/image/upload/w_125/image/upload/''
   \<and> transformS3Image ''/image/upload/image/upload/'' ''w_125'' \<noteq>
       ''/image/upload/image/upload/''"
  by (simp add: transformS3Image_def)

section \<open>Error normalization\<close>

text \<open>
  C4, as the code has it. For every failure value other than \<^verbatim>\<open>null\<close> and
  \<^verbatim>\<open>undefined\<close>, \<^verbatim>\<open>findErrorMessage\<close> does not throw and returns, in this order of
  precedence: the value itself when it is a string; else its \<^verbatim>\<open>message\<close> member when that
  is truthy; else its \<^verbatim>\<open>error.message\<close> member when \<^verbatim>\<open>error\<close> and \<^verbatim>\<open>error.message\<close> are
  truthy; else the phrase \<^verbatim>\<open>an error occurred\<close>. The four examples of the claim hold.
\<close>

theorem findErrorMessage_precedence:
  "(\<not> nullish e \<longrightarrow>
      findErrorMessage e =
        Inr (if is_string e then e
             else if truthy (property e ''message'') then property e ''message''
             else if truthy (property e ''error'')
                     \<and> truthy (property (property e ''error'') ''message'')
                  then property (property e ''error'') ''message''
             else JStr ''an error occurred''))
   \<and> findErrorMessage (JStr ''boom'') = Inr (JStr ''boom'')
   \<and> findErrorMessage (JObj [(''message'', JStr ''x'')]) = Inr (JStr ''x'')
   \<and> findErrorMessage (JObj [(''error'', JObj [(''message'', JStr ''y'')])]) = Inr (JStr ''y'')
   \<and> findErrorMessage (JObj []) = Inr (JStr ''an error occurred'')"
proof -
  have nn: "truthy v \<Longrightarrow> \<not> nullish v" for v by (cases v) auto
  show ?thesis
    by (auto simp add: findErrorMessage_def get_property_def dest: nn)
qed

theorem findErrorMessage_precedence_witness:
  "\<not> nullish (JObj [(''message'', JStr []), (''error'', JObj [(''message'', JStr ''y'')])])
   \<and> findErrorMessage (JObj [(''message'', JStr []), (''error'', JObj [(''message'', JStr ''y'')])])
       = Inr (JStr ''y'')"
  using findErrorMessage_precedence
    [of "JObj [(''message'', JStr []), (''error'', JObj [(''message'', JStr ''y'')])]"]
  by simp

text \<open>
  C4 as stated fails: \<^verbatim>\<open>undefined\<close> and \<^verbatim>\<open>null\<close> make \<^verbatim>\<open>findErrorMessage\<close> throw a
  \<^verbatim>\<open>TypeError\<close>; a value that carries an empty \<^verbatim>\<open>message\<close> gets the fixed phrase, not its
  \<^verbatim>\<open>message\<close>; and a \<^verbatim>\<open>message\<close> that is not a string is returned as it is, so the result
  is not a string.
\<close>

theorem findErrorMessage_counterexample:
  "findErrorMessage JUndefined = Inl TypeError
   \<and> findErrorMessage JNull = Inl TypeError
   \<and> findErrorMessage (JObj [(''message'', JStr [])]) = Inr (JStr ''an error occurred'')
   \<and> findErrorMessage (JObj [(''message'', JNum 42)]) = Inr (JNum 42)"
  by (simp add: findErrorMessage_def get_property_def)

section \<open>Delete: the key and the answer\<close>

text \<open>
  C5. A \<^verbatim>\<open>DELETE\<close> request that passes the authorization and whose \<^verbatim>\<open>media\<close> parameter
  is an array of two or more segments: the handler drops the first segment and issues
  one call, the deletion of the key that is the second segment; when that call
  succeeds, the response has status 200 and the JSON body \<^verbatim>\<open>{public_id: k}\<close>, \<^verbatim>\<open>k\<close> the
  second segment.
\<close>

theorem delete_second_segment:
  assumes "authorized config req new_response = Inr True" and "req_method req = ''DELETE''"
    and "q_media (req_query req) = JArr (first # JStr k # others)"
  shows "calls (createMediaHandler snap URL cl config req new_response) =
           [DeleteObjectCommand \<lparr>del_Bucket = bucket config, del_Key = JStr k\<rparr>]
         \<and> (\<forall>data. send_delete cl \<lparr>del_Bucket = bucket config, del_Key = JStr k\<rparr> = Inr data \<longrightarrow>
               res (createMediaHandler snap URL cl config req new_response) =
                 \<lparr>statusCode = 200, sent = Some (Json (JObj [(''public_id'', JStr k)]))\<rparr>
               \<and> uncaught (createMediaHandler snap URL cl config req new_response) = None)"
  using assms
  by (auto simp add: handler_DELETE deleteAsset_def Let_def res_json_def new_response_def
      split: sum.splits)

theorem delete_second_segment_witness:
  "calls (createMediaHandler Handlers_ts example_URL
            (constant_client (Inr \<lparr>Contents = None, NextMarker = None, other_members = []\<rparr>) (Inr JNull) (Inr (JObj [])))
            example_config
            (example_request ''DELETE'' (no_query\<lparr>q_media := JArr [JStr ''ignored'', JStr ''key123'']\<rparr>))
            new_response) =
     [DeleteObjectCommand \<lparr>del_Bucket = ''media'', del_Key = JStr ''key123''\<rparr>]
   \<and> res (createMediaHandler Handlers_ts example_URL
            (constant_client (Inr \<lparr>Contents = None, NextMarker = None, other_members = []\<rparr>) (Inr JNull) (Inr (JObj [])))
            example_config
            (example_request ''DELETE'' (no_query\<lparr>q_media := JArr [JStr ''ignored'', JStr ''key123'']\<rparr>))
            new_response) =
     \<lparr>statusCode = 200, sent = Some (Json (JObj [(''public_id'', JStr ''key123'')]))\<rparr>"
proof -
  let ?cl = "constant_client (Inr \<lparr>Contents = None, NextMarker = None, other_members = []\<rparr>) (Inr JNull) (Inr (JObj []))"
  let ?req = "example_request ''DELETE'' (no_query\<lparr>q_media := JArr [JStr ''ignored'', JStr ''key123'']\<rparr>)"
  have a: "authorized example_config ?req new_response = Inr True"
    by (simp add: example_config_def)
  have m: "req_method ?req = ''DELETE''"
    by (simp add: example_request_def)
  have q: "q_media (req_query ?req) = JArr (JStr ''ignored'' # JStr ''key123'' # [])"
    by (simp add: example_request_def)
  have b: "bucket example_config = ''media''"
    by (simp add: example_config_def)
  have s: "send_delete ?cl \<lparr>del_Bucket = ''media'', del_Key = JStr ''key123''\<rparr> = Inr (JObj [])"
    by (simp add: constant_client_def)
  from delete_second_segment [OF a m q, of Handlers_ts example_URL ?cl] s
  show ?thesis unfolding b by blast
qed

section \<open>Upload: the key and the ACL\<close>

text \<open>
  C6. A \<^verbatim>\<open>POST\<close> request that passes the authorization and whose multipart body holds a
  \<^verbatim>\<open>directory\<close> field \<^verbatim>\<open>d\<close> and a file of original name \<^verbatim>\<open>f\<close>: the handler issues one
  call, an upload with ACL \<^verbatim>\<open>public-read\<close> whose key is \<^verbatim>\<open>d\<close>, one leading slash removed,
  followed by \<^verbatim>\<open>f\<close>.
\<close>

theorem upload_key_acl:
  assumes "authorized config req r = Inr True" and "req_method req = ''POST''"
    and "multipart req = Inr fm" and "body_directory fm = JStr d" and "req_file fm = Some f"
  shows "calls (createMediaHandler snap URL cl config req r) =
           [Upload \<lparr>up_Bucket = bucket config,
                    up_ACL = ''public-read'',
                    up_Key = (if d \<noteq> [] \<and> hd d = CHR ''/'' then tl d else d) @ originalname f,
                    up_Body = path f\<rparr>]"
  using assms
  by (cases d) (auto simp add: handler_POST uploadMedia_def upload_params_def Let_def
      replace_leading_slash_def split: sum.splits)

theorem upload_key_acl_witness:
  "calls (createMediaHandler Handlers_ts example_URL
            (constant_client (Inr \<lparr>Contents = None, NextMarker = None, other_members = []\<rparr>) (Inr (JObj [])) (Inr JNull))
            example_config
            ((example_request ''POST'' no_query)
               \<lparr>multipart := Inr \<lparr>body_directory = JStr ''/assets/'',
                     req_file = Some \<lparr>originalname = ''cat.png'', path = ''/tmp/cat.png''\<rparr>\<rparr>\<rparr>)
            new_response) =
     [Upload \<lparr>up_Bucket = ''media'', up_ACL = ''public-read'', up_Key = ''assets/cat.png'',
              up_Body = ''/tmp/cat.png''\<rparr>]"
proof -
  let ?fm = "\<lparr>body_directory = JStr ''/assets/'',
               req_file = Some \<lparr>originalname = ''cat.png'', path = ''/tmp/cat.png''\<rparr>\<rparr>"
  let ?req = "(example_request ''POST'' no_query)\<lparr>multipart := Inr ?fm\<rparr>"
  let ?cl = "constant_client (Inr \<lparr>Contents = None, NextMarker = None, other_members = []\<rparr>) (Inr (JObj [])) (Inr JNull)"
  have a: "authorized example_config ?req new_response = Inr True"
    by (simp add: example_config_def)
  have m: "req_method ?req = ''POST''"
    by (simp add: example_request_def)
  have p: "multipart ?req = Inr ?fm" by simp
  have d: "body_directory ?fm = JStr ''/assets/''" by simp
  have f: "req_file ?fm = Some \<lparr>originalname = ''cat.png'', path = ''/tmp/cat.png''\<rparr>" by simp
  have b: "bucket example_config = ''media''"
    by (simp add: example_config_def)
  from upload_key_acl [OF a m p d f, of Handlers_ts example_URL ?cl]
  show ?thesis unfolding b by simp
qed

section \<open>Authorization\<close>

text \<open>
  C7. Whatever the method of the request, when the authorization callback resolves to
  \<^verbatim>\<open>false\<close> the handler ends with status 401, the JSON body
  \<^verbatim>\<open>{message: "sorry this user is not authorized"}\<close>, and no call to the storage backend.
\<close>

theorem unauthorized_401:
  assumes "authorized config req r = Inr False"
  shows "createMediaHandler snap URL cl config req r =
           \<lparr>res = \<lparr>statusCode = 401,
                   sent = Some (Json (JObj [(''message'', JStr ''sorry this user is not authorized'')]))\<rparr>,
            calls = [],
            uncaught = None\<rparr>"
  using assms by (simp add: createMediaHandler_def res_json_def res_status_def)

theorem unauthorized_401_witness:
  "authorized (example_config\<lparr>authorized := (\<lambda>req r. Inr False)\<rparr>)
      (example_request ''DELETE'' (no_query\<lparr>q_media := JArr [JStr ''ignored'', JStr ''key123'']\<rparr>))
      new_response = Inr False
   \<and> createMediaHandler Handlers_ts example_URL
        (constant_client (Inr \<lparr>Contents = None, NextMarker = None, other_members = []\<rparr>) (Inr JNull) (Inr JNull))
        (example_config\<lparr>authorized := (\<lambda>req r. Inr False)\<rparr>)
        (example_request ''DELETE'' (no_query\<lparr>q_media := JArr [JStr ''ignored'', JStr ''key123'']\<rparr>))
        new_response =
      \<lparr>res = \<lparr>statusCode = 401,
              sent = Some (Json (JObj [(''message'', JStr ''sorry this user is not authorized'')]))\<rparr>,
       calls = [],
       uncaught = None\<rparr>"
proof -
  have a: "authorized (example_config\<lparr>authorized := (\<lambda>req r. Inr False)\<rparr>)
      (example_request ''DELETE'' (no_query\<lparr>q_media := JArr [JStr ''ignored'', JStr ''key123'']\<rparr>))
      new_response = Inr False"
    by simp
  from a unauthorized_401 [OF a] show ?thesis by blast
qed

section \<open>The answer of a listing\<close>

text \<open>
  C8, at one input. The listing succeeds with one object \<^verbatim>\<open>a.png\<close> and the next cursor
  \<^verbatim>\<open>a.png\<close> in \<^verbatim>\<open>NextMarker\<close>. Both snapshots answer with status 200 and the projected
  items; the snapshot \<^verbatim>\<open>src/handlers.ts\<close> leaves the cursor out of the body (it reads
  \<^verbatim>\<open>next_cursor\<close>, which the output does not have), the other snapshot returns it as
  \<^verbatim>\<open>offset\<close>.
\<close>

theorem list_offset_snapshots:
  "res (createMediaHandler Handlers_ts example_URL
          (constant_client (Inr \<lparr>Contents = Some [\<lparr>Key = ''a.png''\<rparr>], NextMarker = Some ''a.png'', other_members = []\<rparr>)
             (Inr JNull) (Inr JNull))
          example_config (example_request ''GET'' no_query) new_response) =
     \<lparr>statusCode = 200,
      sent = Some (Json (JObj
        [(''items'', JArr [JObj
            [(''id'', JStr ''a.png''),
             (''filename'', JStr ''a.png''),
             (''directory'', JStr []),
             (''src'', JStr ''https://cdn.example.com/a.png''),
             (''previewSrc'', JStr ''https://cdn.example.com/a.png''),
             (''type'', JStr ''file'')]])]))\<rparr>
   \<and> res (createMediaHandler Part_000 example_URL
          (constant_client (Inr \<lparr>Contents = Some [\<lparr>Key = ''a.png''\<rparr>], NextMarker = Some ''a.png'', other_members = []\<rparr>)
             (Inr JNull) (Inr JNull))
          example_config (example_request ''GET'' no_query) new_response) =
     \<lparr>statusCode = 200,
      sent = Some (Json (JObj
        [(''items'', JArr [JObj
            [(''id'', JStr ''a.png''),
             (''filename'', JStr ''a.png''),
             (''directory'', JStr []),
             (''src'', JStr ''https://cdn.example.com/a.png''),
             (''previewSrc'', JStr ''https://cdn.example.com/a.png''),
             (''type'', JStr ''file'')]]),
         (''offset'', JStr ''a.png'')]))\<rparr>"
  by (simp add: createMediaHandler_def listMedia_def getS3ToTinaFunc_def example_URL_def
      example_config_def example_request_def no_query_def constant_client_def new_response_def
      res_json_def next_offset_def js_not_def Let_def lastIndexOf_def substring_def
      transformS3Image_def endsWith_def)

text \<open>
  The answer of a successful listing in general. A \<^verbatim>\<open>GET\<close> request that passes the
  authorization, whose listing call resolves and whose object descriptors are all
  projected: the response has status 200 and the JSON of
  \<^verbatim>\<open>{items: files, offset: cursor}\<close>, the folders being the empty list, \<^verbatim>\<open>files\<close> the
  projections in order, and \<^verbatim>\<open>cursor\<close> the member of the output the snapshot reads.
\<close>

theorem list_success_body:
  assumes "authorized config req new_response = Inr True" and "req_method req = ''GET''"
    and "calls (createMediaHandler snap URL cl config req new_response) = [ListObjectsCommand inp]"
    and "send_list cl inp = Inr response"
    and "map_throwing (getS3ToTinaFunc snap URL config)
           (case Contents response of Some cs \<Rightarrow> cs | None \<Rightarrow> []) = Inr files"
  shows "res (createMediaHandler snap URL cl config req new_response) =
           \<lparr>statusCode = 200,
            sent = Some (Json (toJSON (JObj [(''items'', JArr files),
                                             (''offset'', next_offset snap response)])))\<rparr>
         \<and> uncaught (createMediaHandler snap URL cl config req new_response) = None"
proof -
  from assms(3) have inp: "send_list cl
        \<lparr>lo_Bucket = bucket config,
         lo_Prefix =
           (if js_not (q_directory (req_query req)) \<or> q_directory (req_query req) = JStr ''/''
               \<or> q_directory (req_query req) = JStr empty_quotes
            then JStr [] else q_directory (req_query req)),
         lo_MaxKeys =
           (if q_limit (req_query req) = JUndefined then JNum 500 else q_limit (req_query req)),
         lo_Marker = q_offset (req_query req)\<rparr> = Inr response"
    using assms(4) by (simp add: handler_GET [OF assms(1,2)] listMedia_calls)
  show ?thesis
    unfolding handler_GET [OF assms(1,2)]
    using inp assms(5)
    by (simp add: listMedia_def Let_def res_json_def new_response_def split: option.splits)
qed

theorem list_success_body_witness:
  "res (createMediaHandler Part_000 example_URL
          (constant_client (Inr \<lparr>Contents = Some [\<lparr>Key = ''b.mp4''\<rparr>], NextMarker = Some ''b.mp4'', other_members = []\<rparr>)
             (Inr JNull) (Inr JNull))
          example_config (example_request ''GET'' no_query) new_response) =
     \<lparr>statusCode = 200,
      sent = Some (Json (JObj
        [(''items'', JArr [JObj
            [(''id'', JStr ''b.mp4''),
             (''filename'', JStr ''b.mp4''),
             (''directory'', JStr []),
             (''src'', JStr ''https://cdn.example.com/b.mp4''),
             (''previewSrc'', JStr video_placeholder),
             (''type'', JStr ''file'')]]),
         (''offset'', JStr ''b.mp4'')]))\<rparr>"
proof -
  let ?out = "\<lparr>Contents = Some [\<lparr>Key = ''b.mp4''\<rparr>], NextMarker = Some ''b.mp4'', other_members = []\<rparr>"
  let ?cl = "constant_client (Inr ?out) (Inr JNull) (Inr JNull)"
  let ?req = "example_request ''GET'' no_query"
  let ?inp = "\<lparr>lo_Bucket = ''media'', lo_Prefix = JStr [], lo_MaxKeys = JNum 500,
               lo_Marker = JUndefined\<rparr>"
  let ?item = "JObj
            [(''id'', JStr ''b.mp4''),
             (''filename'', JStr ''b.mp4''),
             (''directory'', JStr []),
             (''src'', JStr ''https://cdn.example.com/b.mp4''),
             (''previewSrc'', JStr video_placeholder),
             (''type'', JStr ''file'')]"
  have a: "authorized example_config ?req new_response = Inr True"
    by (simp add: example_config_def)
  have m: "req_method ?req = ''GET''"
    by (simp add: example_request_def)
  have c: "calls (createMediaHandler Part_000 example_URL ?cl example_config ?req new_response) =
             [ListObjectsCommand ?inp]"
    unfolding handler_GET [OF a m]
    by (simp add: listMedia_calls example_request_def example_config_def
        no_query_def js_not_def)
  have s: "send_list ?cl ?inp = Inr ?out"
    by (simp add: constant_client_def)
  have f: "map_throwing (getS3ToTinaFunc Part_000 example_URL example_config)
             (case Contents ?out of Some cs \<Rightarrow> cs | None \<Rightarrow> []) = Inr [?item]"
    by (simp add: getS3ToTinaFunc_def example_URL_def example_config_def Let_def
        lastIndexOf_def substring_def endsWith_def)
  from list_success_body [OF a m c s f] show ?thesis
    by (simp add: next_offset_def)
qed

section \<open>A failed deletion\<close>

text \<open>
  Whenever the deletion call is issued and the backend rejects it, the \<^verbatim>\<open>catch\<close>
  callback of \<^verbatim>\<open>deleteAsset\<close> (line 191) sets the status 500 and nothing more: the
  response is never answered.
\<close>

lemma deleteAsset_rejected:
  assumes "calls (deleteAsset cl req r config) = [DeleteObjectCommand inp]"
    and "send_delete cl inp = Inl e"
  shows "res (deleteAsset cl req r config) = res_status 500 r"
    and "responded (res (deleteAsset cl req r config)) = responded r"
  using assms
  by (auto simp add: deleteAsset_def Let_def res_status_def responded_def split: sum.splits)

text \<open>
  C9, at one input. An authorized \<^verbatim>\<open>DELETE\<close> request with \<^verbatim>\<open>media\<close> the segments
  \<^verbatim>\<open>ignored\<close> and \<^verbatim>\<open>key123\<close>, whose deletion call the backend rejects. The handler issues
  the deletion of \<^verbatim>\<open>key123\<close>, sets the status code 500 and ends without an exception, but
  it never answers: no \<^verbatim>\<open>json\<close>, \<^verbatim>\<open>send\<close> or \<^verbatim>\<open>end\<close> is called, so no response with
  status 500 leaves the handler. With the same rejection, a listing is answered (status
  500, the message as JSON) and so is an upload (\<^verbatim>\<open>res.send(500)\<close>).
\<close>

theorem delete_failure_never_answers:
  "calls (createMediaHandler Handlers_ts example_URL
            (constant_client (Inl (JObj [(''message'', JStr ''Access Denied'')]))
               (Inl (JObj [(''message'', JStr ''Access Denied'')]))
               (Inl (JObj [(''message'', JStr ''Access Denied'')])))
            example_config
            (example_request ''DELETE'' (no_query\<lparr>q_media := JArr [JStr ''ignored'', JStr ''key123'']\<rparr>))
            new_response) =
     [DeleteObjectCommand \<lparr>del_Bucket = ''media'', del_Key = JStr ''key123''\<rparr>]
   \<and> res (createMediaHandler Handlers_ts example_URL
            (constant_client (Inl (JObj [(''message'', JStr ''Access Denied'')]))
               (Inl (JObj [(''message'', JStr ''Access Denied'')]))
               (Inl (JObj [(''message'', JStr ''Access Denied'')])))
            example_config
            (example_request ''DELETE'' (no_query\<lparr>q_media := JArr [JStr ''ignored'', JStr ''key123'']\<rparr>))
            new_response) =
     \<lparr>statusCode = 500, sent = None\<rparr>
   \<and> \<not> responded (res (createMediaHandler Handlers_ts example_URL
            (constant_client (Inl (JObj [(''message'', JStr ''Access Denied'')]))
               (Inl (JObj [(''message'', JStr ''Access Denied'')]))
               (Inl (JObj [(''message'', JStr ''Access Denied'')])))
            example_config
            (example_request ''DELETE'' (no_query\<lparr>q_media := JArr [JStr ''ignored'', JStr ''key123'']\<rparr>))
            new_response))
   \<and> uncaught (createMediaHandler Handlers_ts example_URL
            (constant_client (Inl (JObj [(''message'', JStr ''Access Denied'')]))
               (Inl (JObj [(''message'', JStr ''Access Denied'')]))
               (Inl (JObj [(''message'', JStr ''Access Denied'')])))
            example_config
            (example_request ''DELETE'' (no_query\<lparr>q_media := JArr [JStr ''ignored'', JStr ''key123'']\<rparr>))
            new_response) = None
   \<and> res (createMediaHandler Handlers_ts example_URL
            (constant_client (Inl (JObj [(''message'', JStr ''Access Denied'')]))
               (Inl (JObj [(''message'', JStr ''Access Denied'')]))
               (Inl (JObj [(''message'', JStr ''Access Denied'')])))
            example_config (example_request ''GET'' no_query) new_response) =
     \<lparr>statusCode = 500, sent = Some (Json (JObj [(''e'', JStr ''Access Denied'')]))\<rparr>
   \<and> res (createMediaHandler Handlers_ts example_URL
            (constant_client (Inl (JObj [(''message'', JStr ''Access Denied'')]))
               (Inl (JObj [(''message'', JStr ''Access Denied'')]))
               (Inl (JObj [(''message'', JStr ''Access Denied'')])))
            example_config
            ((example_request ''POST'' no_query)
               \<lparr>multipart := Inr \<lparr>body_directory = JStr ''/assets/'',
                     req_file = Some \<lparr>originalname = ''cat.png'', path = ''/tmp/cat.png''\<rparr>\<rparr>\<rparr>)
            new_response) =
     \<lparr>statusCode = 200, sent = Some (Send (JNum 500))\<rparr>"
  by (simp add: createMediaHandler_def deleteAsset_def listMedia_def listMedia_catch_def
      uploadMedia_def upload_params_def replace_leading_slash_def findErrorMessage_def
      get_property_def example_config_def example_request_def no_query_def
      constant_client_def new_response_def res_status_def res_json_def res_send_def
      responded_def js_not_def Let_def)

section \<open>A listing without contents\<close>

text \<open>
  C10. A \<^verbatim>\<open>GET\<close> request that passes the authorization, and whose listing call resolves
  with an output that has no \<^verbatim>\<open>Contents\<close>: the handler does not enter its \<^verbatim>\<open>catch\<close> block;
  the response has status 200 and a JSON body whose \<^verbatim>\<open>items\<close> is the empty list and that
  has no member \<^verbatim>\<open>e\<close>. Both snapshots.
\<close>

theorem list_without_contents:
  assumes "authorized config req new_response = Inr True" and "req_method req = ''GET''"
    and "calls (createMediaHandler snap URL cl config req new_response) = [ListObjectsCommand inp]"
    and "send_list cl inp = Inr response" and "Contents response = None"
  shows "\<exists>body. res (createMediaHandler snap URL cl config req new_response) =
                  \<lparr>statusCode = 200, sent = Some (Json body)\<rparr>
              \<and> property body ''items'' = JArr []
              \<and> property body ''e'' = JUndefined
              \<and> uncaught (createMediaHandler snap URL cl config req new_response) = None"
proof -
  from assms(3) have inp: "send_list cl
        \<lparr>lo_Bucket = bucket config,
         lo_Prefix =
           (if js_not (q_directory (req_query req)) \<or> q_directory (req_query req) = JStr ''/''
               \<or> q_directory (req_query req) = JStr empty_quotes
            then JStr [] else q_directory (req_query req)),
         lo_MaxKeys =
           (if q_limit (req_query req) = JUndefined then JNum 500 else q_limit (req_query req)),
         lo_Marker = q_offset (req_query req)\<rparr> = Inr response"
    using assms(4) by (simp add: handler_GET [OF assms(1,2)] listMedia_calls)
  show ?thesis
    unfolding handler_GET [OF assms(1,2)]
    using inp assms(5)
    by (simp add: listMedia_def Let_def res_json_def new_response_def
        next_offset_def split: snapshot.splits option.splits)
qed

theorem list_without_contents_witness:
  "\<exists>body. res (createMediaHandler Part_000 example_URL
                 (constant_client (Inr \<lparr>Contents = None, NextMarker = None, other_members = []\<rparr>) (Inr JNull) (Inr JNull))
                 example_config (example_request ''GET'' no_query) new_response) =
              \<lparr>statusCode = 200, sent = Some (Json body)\<rparr>
          \<and> property body ''items'' = JArr []"
proof -
  let ?cl = "constant_client (Inr \<lparr>Contents = None, NextMarker = None, other_members = []\<rparr>) (Inr JNull) (Inr JNull)"
  let ?req = "example_request ''GET'' no_query"
  let ?inp = "\<lparr>lo_Bucket = ''media'', lo_Prefix = JStr [], lo_MaxKeys = JNum 500,
               lo_Marker = JUndefined\<rparr>"
  have a: "authorized example_config ?req new_response = Inr True"
    by (simp add: example_config_def)
  have m: "req_method ?req = ''GET''"
    by (simp add: example_request_def)
  have c: "calls (createMediaHandler Part_000 example_URL ?cl example_config ?req new_response) =
             [ListObjectsCommand ?inp]"
    unfolding handler_GET [OF a m]
    by (simp add: listMedia_calls example_request_def example_config_def
        no_query_def js_not_def)
  have s: "send_list ?cl ?inp = Inr \<lparr>Contents = None, NextMarker = None, other_members = []\<rparr>"
    by (simp add: constant_client_def)
  have n: "Contents \<lparr>Contents = None, NextMarker = None, other_members = []\<rparr> = None" by simp
  from list_without_contents [OF a m c s n] show ?thesis by blast
qed

end
